theory Spec2Isabelle
  imports Main
begin

section \<open>HTTP requests and responses\<close>

text \<open>
  The repository is an Express 5 / Mongoose 9 backend (its README names the stack). The
  entry point builds an application with three calls,
  \<^verbatim>\<open>app.use(express.json())\<close>, \<^verbatim>\<open>app.get('/', ...)\<close> and \<^verbatim>\<open>app.listen(PORT, ...)\<close>,
  and the module \<^verbatim>\<open>src/Database/db.js\<close> defines \<^verbatim>\<open>ConnectDB\<close>.

  A request is modelled as the framework reads it. Node has already parsed the request
  line and the header block, so the record holds the method, the path and the query
  string of the URL, and a typed view of each header that a framework function called by
  this program looks at; all remaining header lines are kept in \<open>other_headers\<close> and
  are read by nothing.
\<close>

datatype entity =
    Body_text string   \<comment> \<open>the declared body, inflated and decoded to text\<close>
  | Unreadable nat     \<comment> \<open>reading the declared body failed with this HTTP status
                           (415 unsupported charset or encoding, 413 too large, 400 bad length)\<close>

datatype etag_condition =
    Any_tag               \<comment> \<open>\<^verbatim>\<open>If-None-Match: *\<close>\<close>
  | Tags "string list"    \<comment> \<open>\<^verbatim>\<open>If-None-Match\<close> with a list of entity tags\<close>

datatype json =
    JNull
  | JBool bool
  | JNumber string        \<comment> \<open>the numeric literal\<close>
  | JString string
  | JArray "json list"
  | JObject "(string \<times> json) list"

record request =
  req_method :: string                         \<comment> \<open>\<^verbatim>\<open>req.method\<close>, upper case\<close>
  req_path :: string                           \<comment> \<open>path of the request URL\<close>
  req_query :: string                          \<comment> \<open>query string of the request URL\<close>
  content_type :: "string option"              \<comment> \<open>media type of Content-Type, lower case, without parameters\<close>
  entity :: "entity option"                    \<comment> \<open>\<open>None\<close>: neither Content-Length nor Transfer-Encoding\<close>
  if_none_match :: "etag_condition option"
  if_modified_since :: "string option"
  cache_no_cache :: bool                       \<comment> \<open>Cache-Control of the request has the no-cache directive\<close>
  other_headers :: "(string \<times> string) list"
  body :: "json option"                        \<comment> \<open>\<^verbatim>\<open>req.body\<close>: undefined until a body parser sets it\<close>

datatype response =
    Sent nat string            \<comment> \<open>\<^verbatim>\<open>res.send\<close>: status code and entity body\<close>
  | Options_reply "string list"  \<comment> \<open>the router's own answer to OPTIONS: status 200, Allow header\<close>
  | Final nat                  \<comment> \<open>the framework's final handler: status code and generated error page\<close>

fun status_of :: "response \<Rightarrow> nat" where
  "status_of (Sent s b) = s"
| "status_of (Options_reply ms) = 200"
| "status_of (Final s) = s"

text \<open>What the program takes from the JavaScript runtime and the framework's settings.\<close>

record runtime =
  JSON_parse :: "string \<Rightarrow> json option"   \<comment> \<open>\<^verbatim>\<open>JSON.parse\<close>; \<open>None\<close>: it throws a SyntaxError\<close>
  etag_fn :: "string \<Rightarrow> string"           \<comment> \<open>the application's \<^verbatim>\<open>etag fn\<close> setting (weak ETag of an entity)\<close>

text \<open>The state of the Mongoose connection, which any handler could read.\<close>

datatype connection_state = Connecting | Connected | Disconnected

section \<open>The JSON body parser: \<^verbatim>\<open>express.json()\<close>\<close>

datatype mw_result =
    Next request       \<comment> \<open>\<^verbatim>\<open>next()\<close>\<close>
  | Next_error nat     \<comment> \<open>\<^verbatim>\<open>next(err)\<close> with \<^verbatim>\<open>err.status\<close>\<close>

definition is_json_ws :: "char \<Rightarrow> bool" where
  "is_json_ws c = (c = CHR 0x20 \<or> c = CHR 0x09 \<or> c = CHR 0x0A \<or> c = CHR 0x0D)"

definition firstchar :: "string \<Rightarrow> char option" where
  "firstchar str = (case dropWhile is_json_ws str of [] \<Rightarrow> None | c # cs \<Rightarrow> Some c)"

text \<open>
  The parser's \<^verbatim>\<open>parse\<close> function: an empty body is the empty object; in strict mode (the
  default) the first character after white space must open an object or an array; then
  \<^verbatim>\<open>JSON.parse\<close> decides. \<open>None\<close> is a thrown error, which the parser reports as status 400.
\<close>

definition json_parse_body :: "runtime \<Rightarrow> string \<Rightarrow> json option" where
  "json_parse_body rt str =
     (if str = [] then Some (JObject [])
      else (case firstchar str of
              None \<Rightarrow> None
            | Some c \<Rightarrow> if c \<noteq> CHR ''{'' \<and> c \<noteq> CHR ''['' then None else JSON_parse rt str))"

text \<open>
  The middleware skips a request that declares no body, and one whose media type is not
  \<^verbatim>\<open>application/json\<close>. Otherwise it reads the body and parses it: a failure of either
  step goes to \<^verbatim>\<open>next(err)\<close>, a success stores the value in \<^verbatim>\<open>req.body\<close>. The method of
  the request is not looked at.
\<close>

definition express_json :: "runtime \<Rightarrow> request \<Rightarrow> mw_result" where
  "express_json rt req =
     (case entity req of
        None \<Rightarrow> Next req
      | Some e \<Rightarrow>
          if content_type req \<noteq> Some ''application/json'' then Next req
          else (case e of
                  Unreadable s \<Rightarrow> Next_error s
                | Body_text str \<Rightarrow>
                    (case json_parse_body rt str of
                       None \<Rightarrow> Next_error 400
                     | Some v \<Rightarrow> Next (req\<lparr>body := Some v\<rparr>))))"

section \<open>\<^verbatim>\<open>res.send\<close> and conditional requests\<close>

text \<open>
  \<^verbatim>\<open>req.fresh\<close> for a response with the given ETag and no Last-Modified header: an
  unconditional request is stale; so is one with \<^verbatim>\<open>Cache-Control: no-cache\<close>;
  If-None-Match decides before If-Modified-Since, which alone leaves the request stale
  because the response carries no date to compare with.
\<close>

definition fresh :: "request \<Rightarrow> string \<Rightarrow> bool" where
  "fresh req etag =
     (if if_modified_since req = None \<and> if_none_match req = None then False
      else if cache_no_cache req then False
      else (case if_none_match req of
              Some Any_tag \<Rightarrow> True
            | Some (Tags ts) \<Rightarrow>
                list_ex (\<lambda>t. t = etag \<or> t = ''W/'' @ etag \<or> ''W/'' @ t = etag) ts
            | None \<Rightarrow> False))"

definition req_fresh :: "runtime \<Rightarrow> request \<Rightarrow> string \<Rightarrow> bool" where
  "req_fresh rt req chunk =
     ((req_method req = ''GET'' \<or> req_method req = ''HEAD'') \<and> fresh req (etag_fn rt chunk))"

text \<open>
  \<^verbatim>\<open>res.send(chunk)\<close> on a response whose status nobody has set (200): it sets the ETag,
  turns a fresh request into 304 with an empty body, and leaves the body out for HEAD.
\<close>

definition res_send :: "runtime \<Rightarrow> request \<Rightarrow> string \<Rightarrow> response" where
  "res_send rt req chunk =
     (if req_fresh rt req chunk then Sent 304 []
      else if req_method req = ''HEAD'' then Sent 200 []
      else Sent 200 chunk)"

section \<open>The application and its router\<close>

datatype layer =
    Use "request \<Rightarrow> mw_result"
  | Route string string "connection_state \<Rightarrow> request \<Rightarrow> response"

type_synonym application = "layer list"

definition express :: application where
  "express = []"

definition app_use :: "application \<Rightarrow> (request \<Rightarrow> mw_result) \<Rightarrow> application" where
  "app_use app fn = app @ [Use fn]"

definition app_get ::
  "application \<Rightarrow> string \<Rightarrow> (connection_state \<Rightarrow> request \<Rightarrow> response) \<Rightarrow> application" where
  "app_get app path fn = app @ [Route ''GET'' path fn]"

text \<open>
  A route's literal path matches the request path itself and, routing not being strict,
  the path with one trailing slash.
\<close>

definition path_matches :: "string \<Rightarrow> string \<Rightarrow> bool" where
  "path_matches pattern p = (p = pattern \<or> p = pattern @ ''/'')"

text \<open>A route registered for GET also answers HEAD.\<close>

definition handles_method :: "string \<Rightarrow> string \<Rightarrow> bool" where
  "handles_method route_method m = (m = route_method \<or> (m = ''HEAD'' \<and> route_method = ''GET''))"

definition route_methods :: "string \<Rightarrow> string list" where
  "route_methods route_method =
     (if route_method = ''GET'' then [''GET'', ''HEAD''] else [route_method])"

text \<open>
  The router walks its stack in registration order. A middleware passes the request on or
  raises an error, and an error skips every remaining layer (none of them handles errors)
  and reaches the final handler with its status. A route whose path matches runs its
  handler if it handles the method; if it does not, and the request is OPTIONS, the
  route's methods are collected. At the end of the stack an OPTIONS request with
  collected methods gets the router's own reply, and everything else gets 404.
\<close>

fun dispatch :: "application \<Rightarrow> connection_state \<Rightarrow> string list \<Rightarrow> request \<Rightarrow> response" where
  "dispatch [] db opts req =
     (if req_method req = ''OPTIONS'' \<and> opts \<noteq> [] then Options_reply opts else Final 404)"
| "dispatch (Use fn # stack) db opts req =
     (case fn req of
        Next req' \<Rightarrow> dispatch stack db opts req'
      | Next_error s \<Rightarrow> Final s)"
| "dispatch (Route m path fn # stack) db opts req =
     (if \<not> path_matches path (req_path req) then dispatch stack db opts req
      else if handles_method m (req_method req) then fn db req
      else dispatch stack db
             (if req_method req = ''OPTIONS'' then opts @ route_methods m else opts) req)"

text \<open>
  The application of the entry point (both versions of \<^verbatim>\<open>server.js\<close> build the same one):
  \<^verbatim>\<open>
  const app = express();
  app.use(express.json());
  app.get('/', (req, res) => {
      res.send("Hi hi");
  })
  \<close>
\<close>

definition root_handler :: "runtime \<Rightarrow> connection_state \<Rightarrow> request \<Rightarrow> response" where
  "root_handler rt db req = res_send rt req ''Hi hi''"

definition server_app :: "runtime \<Rightarrow> application" where
  "server_app rt = app_get (app_use express (express_json rt)) ''/'' (root_handler rt)"

definition serve :: "runtime \<Rightarrow> connection_state \<Rightarrow> request \<Rightarrow> response" where
  "serve rt db req = dispatch (server_app rt) db [] req"

section \<open>JavaScript effects: exceptions, promises, the console\<close>

record js_error =
  err_name :: string
  err_message :: string
  own_toString :: "string option"   \<comment> \<open>what the value's own \<^verbatim>\<open>toString\<close> returns, if it has one\<close>

text \<open>
  The string a template literal makes of a caught value: the value's own \<^verbatim>\<open>toString\<close>
  where it has one (Node's errors with a code have: \<^verbatim>\<open>RangeError [ERR_...]: ...\<close>), and
  \<^verbatim>\<open>Error.prototype.toString\<close> otherwise, which joins the name and the message.
\<close>

definition error_to_string :: "js_error \<Rightarrow> string" where
  "error_to_string e =
     (case own_toString e of
        Some s \<Rightarrow> s
      | None \<Rightarrow>
          if err_name e = [] then err_message e
          else if err_message e = [] then err_name e
          else err_name e @ '': '' @ err_message e)"

datatype event =
    Env_read                        \<comment> \<open>the configuration module reads the environment\<close>
  | Driver_connect "string option"  \<comment> \<open>\<^verbatim>\<open>mongoose.connect\<close> is called with this argument\<close>
  | Net_listen "string option"      \<comment> \<open>\<^verbatim>\<open>app.listen\<close> is called with this port argument\<close>
  | Console_log string              \<comment> \<open>a line written by \<^verbatim>\<open>console.log\<close>\<close>
  | Suspend                         \<comment> \<open>the running function yields; what follows runs in a later turn\<close>
  | Uncaught string                 \<comment> \<open>uncaught exception or unhandled rejection: the process ends\<close>

datatype 'a completion = Normal 'a | Throw js_error

datatype 'a promise = Fulfilled 'a | Rejected js_error

text \<open>A statement's run: the effects it had, in order, and how it completed.\<close>

type_synonym 'a js = "event list \<times> 'a completion"

definition js_bind :: "'a js \<Rightarrow> ('a \<Rightarrow> 'b js) \<Rightarrow> 'b js" where
  "js_bind m f =
     (case snd m of
        Throw e \<Rightarrow> (fst m, Throw e)
      | Normal v \<Rightarrow> (fst m @ fst (f v), snd (f v)))"

definition try_catch :: "'a js \<Rightarrow> (js_error \<Rightarrow> 'a js) \<Rightarrow> 'a js" where
  "try_catch m handler =
     (case snd m of
        Throw e \<Rightarrow> (fst m @ fst (handler e), snd (handler e))
      | Normal v \<Rightarrow> m)"

text \<open>\<^verbatim>\<open>await p\<close> always yields first; a rejected promise then throws its reason.\<close>

definition await :: "'a promise \<Rightarrow> 'a js" where
  "await p = ([Suspend], case p of Fulfilled v \<Rightarrow> Normal v | Rejected e \<Rightarrow> Throw e)"

definition console_log :: "string \<Rightarrow> unit js" where
  "console_log line = ([Console_log line], Normal ())"

text \<open>
  An \<^verbatim>\<open>async\<close> function never throws to its caller: the promise it returns is fulfilled
  when the body completes and rejected when the body throws.
\<close>

definition async :: "unit js \<Rightarrow> event list \<times> unit promise" where
  "async m = (fst m, case snd m of Normal v \<Rightarrow> Fulfilled () | Throw e \<Rightarrow> Rejected e)"

section \<open>The database connector: \<^verbatim>\<open>src/Database/db.js\<close>\<close>

text \<open>
  The driver is a parameter: for each argument, \<^verbatim>\<open>mongoose.connect\<close> either throws at
  the call or returns a promise that is fulfilled (connected) or rejected.
\<close>

type_synonym driver = "string option \<Rightarrow> unit promise completion"

definition mongoose_connect :: "driver \<Rightarrow> string option \<Rightarrow> unit promise js" where
  "mongoose_connect drv uri = ([Driver_connect uri], drv uri)"

text \<open>The two log lines; the emoji are written as their UTF-8 bytes.\<close>

definition raised_hands :: string where
  "raised_hands = [CHR 0xF0, CHR 0x9F, CHR 0x99, CHR 0x8C]"

definition cross_mark :: string where
  "cross_mark = [CHR 0xE2, CHR 0x9D, CHR 0x8C]"

definition connected_line :: string where
  "connected_line =
     raised_hands @ ''  Server is successfully connected to databasse '' @ raised_hands"

definition problem_line :: "js_error \<Rightarrow> string" where
  "problem_line err =
     cross_mark @ '' Problem in connecting to database '' @ cross_mark @ '' '' @ error_to_string err"

text \<open>
  \<^verbatim>\<open>
  const ConnectDB = async () => {
      try{
          await mongoose.connect(database_uri);
          console.log("... Server is successfully connected to databasse ...");
      }catch(err){
          console.log(`... Problem in connecting to database ... ${err}`);
      }
  };
  \<close>
\<close>

definition ConnectDB :: "driver \<Rightarrow> string option \<Rightarrow> event list \<times> unit promise" where
  "ConnectDB drv uri =
     async (try_catch
              (js_bind (js_bind (mongoose_connect drv uri) await)
                       (\<lambda>u. console_log connected_line))
              (\<lambda>err. console_log (problem_line err)))"

section \<open>The configuration loader: \<^verbatim>\<open>example.env.js\<close>\<close>

type_synonym environment = "string \<Rightarrow> string option"

record config =
  PORT :: "string option"
  database_uri :: "string option"

text \<open>
  Modelled from the spec: the configuration loader \<^verbatim>\<open>example.env.js\<close>, which both
  \<^verbatim>\<open>server.js\<close> and \<^verbatim>\<open>db.js\<close> require, is not among the sources. The spec describes it
  as an environment-to-value mapping of two names with no validation, no default and no
  local failure, an absent variable giving an undefined value.
\<close>

definition example_env :: "environment \<Rightarrow> config" where
  "example_env env = \<lparr>PORT = env ''PORT'', database_uri = env ''database_uri''\<rparr>"

text \<open>
  \<^verbatim>\<open>require\<close> of the loader with Node's module cache: the module body runs at the first
  call only, and every later call returns the exports of the first.
\<close>

definition require_example_env ::
  "environment \<Rightarrow> config option \<Rightarrow> event list \<times> config \<times> config option" where
  "require_example_env env cache =
     (case cache of
        Some exports \<Rightarrow> ([], exports, cache)
      | None \<Rightarrow> ([Env_read], example_env env, Some (example_env env)))"

section \<open>The entry points\<close>

text \<open>
  How the runtime answers \<^verbatim>\<open>listen\<close> for a port argument is a parameter: the server
  comes to listen, the bind fails later with an error event, or the argument is refused
  at the call.
\<close>

datatype listen_outcome = Listening | Bind_error js_error | Bad_port js_error

type_synonym net = "string option \<Rightarrow> listen_outcome"

definition running_line :: "string option \<Rightarrow> string" where
  "running_line port =
     ''Server is running on '' @ (case port of None \<Rightarrow> ''undefined'' | Some s \<Rightarrow> s)"

text \<open>
  \<^verbatim>\<open>
  app.listen(PORT, () => {
      console.log(`Server is running on ${PORT}`)
  });
  \<close>
  Express 5 registers the callback for the server's error event as well, so the callback
  runs once in a later turn whether the bind succeeds or fails. The value says whether
  the server comes to listen.
\<close>

definition app_listen :: "net \<Rightarrow> string option \<Rightarrow> bool js" where
  "app_listen nt port =
     (case nt port of
        Bad_port e \<Rightarrow> ([Net_listen port], Throw e)
      | Bind_error e \<Rightarrow> ([Net_listen port, Suspend, Console_log (running_line port)], Normal False)
      | Listening \<Rightarrow> ([Net_listen port, Suspend, Console_log (running_line port)], Normal True))"

datatype schedule = Db_first | Listen_first

datatype proc_state = Serving | Not_serving | Crashed

record process =
  app :: application
  trace :: "event list"
  state :: proc_state

definition this_turn :: "event list \<Rightarrow> event list" where
  "this_turn es = takeWhile (\<lambda>e. e \<noteq> Suspend) es"

definition later_turn :: "event list \<Rightarrow> event list" where
  "later_turn es = filter (\<lambda>e. e \<noteq> Suspend) (dropWhile (\<lambda>e. e \<noteq> Suspend) es)"

text \<open>
  The module body runs to its end in one turn; an exception there ends the process. The
  continuations of the two pending operations then run in the order the schedule gives.
  Nobody handles the promise of the async call, so its rejection would end the process.
\<close>

definition run_module ::
  "application \<Rightarrow> event list \<Rightarrow> event list \<times> unit promise \<Rightarrow> bool js \<Rightarrow> schedule \<Rightarrow> process" where
  "run_module ap loaded db listen sched =
     (let turn = loaded @ this_turn (fst db) @ this_turn (fst listen) in
      case snd listen of
        Throw e \<Rightarrow> \<lparr>app = ap, trace = turn @ [Uncaught (error_to_string e)], state = Crashed\<rparr>
      | Normal listening \<Rightarrow>
          (case snd db of
             Rejected e \<Rightarrow>
               \<lparr>app = ap,
                trace = turn @ (if sched = Db_first then [] else later_turn (fst listen))
                             @ later_turn (fst db) @ [Uncaught (error_to_string e)],
                state = Crashed\<rparr>
           | Fulfilled u \<Rightarrow>
               \<lparr>app = ap,
                trace = turn @ (if sched = Db_first
                                then later_turn (fst db) @ later_turn (fst listen)
                                else later_turn (fst listen) @ later_turn (fst db)),
                state = (if listening then Serving else Not_serving)\<rparr>))"

text \<open>
  The entry point that connects to the database (the second version of \<^verbatim>\<open>server.js\<close>):
  \<^verbatim>\<open>
  const { PORT } = require("./example.env");
  const { ConnectDB } = require("./src/Database/db");
  ...
  ConnectDB();
  app.listen(PORT, () => { ... });
  \<close>
  Requiring \<^verbatim>\<open>db.js\<close> runs its module body, which requires the loader again and keeps
  \<^verbatim>\<open>database_uri\<close>.
\<close>

definition server_entry :: "runtime \<Rightarrow> driver \<Rightarrow> net \<Rightarrow> schedule \<Rightarrow> environment \<Rightarrow> process" where
  "server_entry rt drv nt sched env =
     (let first = require_example_env env None;
          second = require_example_env env (snd (snd first));
          port = PORT (fst (snd first));
          uri = database_uri (fst (snd second))
      in run_module (server_app rt) (fst first @ fst second)
           (ConnectDB drv uri) (app_listen nt port) sched)"

text \<open>
  \<^verbatim>\<open>src/backend/server.js\<close>: the same file without the two lines that name \<^verbatim>\<open>ConnectDB\<close>.
  No async call is pending when its module body ends.
\<close>

definition backend_server_js :: "runtime \<Rightarrow> net \<Rightarrow> schedule \<Rightarrow> environment \<Rightarrow> process" where
  "backend_server_js rt nt sched env =
     (let first = require_example_env env None;
          port = PORT (fst (snd first))
      in run_module (server_app rt) (fst first)
           ([], Fulfilled ()) (app_listen nt port) sched)"

text \<open>What a client gets from the process: an answer of the application, or no answer.\<close>

definition respond :: "process \<Rightarrow> connection_state \<Rightarrow> request \<Rightarrow> response option" where
  "respond p db req = (if state p = Serving then Some (dispatch (app p) db [] req) else None)"

text \<open>An event \<open>a\<close> of a trace that comes before the first \<open>b\<close>.\<close>

definition precedes :: "event \<Rightarrow> event \<Rightarrow> event list \<Rightarrow> bool" where
  "precedes a b es = (b \<in> set es \<and> a \<in> set (takeWhile (\<lambda>e. e \<noteq> b) es))"

section \<open>Example inputs\<close>

text \<open>A request with no body, no conditional header and no other header.\<close>

definition plain_request :: "string \<Rightarrow> string \<Rightarrow> request" where
  "plain_request m p =
     \<lparr>req_method = m, req_path = p, req_query = [], content_type = None, entity = None,
      if_none_match = None, if_modified_since = None, cache_no_cache = False,
      other_headers = [], body = None\<rparr>"

text \<open>\<^verbatim>\<open>GET /\<close> with \<^verbatim>\<open>Content-Type: application/json\<close> and the two-byte body \<^verbatim>\<open>Hi\<close>.\<close>

definition bad_json_get :: request where
  "bad_json_get =
     (plain_request ''GET'' ''/'')
       \<lparr>content_type := Some ''application/json'', entity := Some (Body_text ''Hi'')\<rparr>"

text \<open>\<^verbatim>\<open>GET /\<close> with \<^verbatim>\<open>If-None-Match: *\<close>.\<close>

definition conditional_get :: request where
  "conditional_get = (plain_request ''GET'' ''/'')\<lparr>if_none_match := Some Any_tag\<rparr>"

text \<open>The environment of the README's example \<^verbatim>\<open>.env\<close>, and the empty environment.\<close>

definition readme_env :: environment where
  "readme_env =
     [''PORT'' \<mapsto> ''3000'',
      ''database_uri'' \<mapsto> ''mongodb://localhost:27017/Bank_Transaction_System'']"

definition empty_env :: environment where
  "empty_env = Map.empty"

text \<open>
  A driver that finds no server, one that throws at the call, one that throws an error with
  a \<^verbatim>\<open>toString\<close> of its own, and one that connects.
\<close>

definition refused :: js_error where
  "refused =
     \<lparr>err_name = ''MongooseServerSelectionError'',
      err_message = ''connect ECONNREFUSED 127.0.0.1:27017'',
      own_toString = None\<rparr>"

definition coded_error :: js_error where
  "coded_error =
     \<lparr>err_name = ''TypeError'',
      err_message = ''The uri argument must be of type string'',
      own_toString =
        Some ''TypeError [ERR_INVALID_ARG_TYPE]: The uri argument must be of type string''\<rparr>"

definition coded_driver :: driver where
  "coded_driver uri = Throw coded_error"

definition unreachable_driver :: driver where
  "unreachable_driver uri = Normal (Rejected refused)"

definition throwing_driver :: driver where
  "throwing_driver uri = Throw refused"

definition connecting_driver :: driver where
  "connecting_driver uri = Normal (Fulfilled ())"

text \<open>A network on which every bind succeeds.\<close>

definition open_net :: net where
  "open_net port = Listening"

section \<open>Basic facts\<close>

lemma server_app_layers:
  "server_app rt = [Use (express_json rt), Route ''GET'' ''/'' (root_handler rt)]"
  by (simp add: server_app_def app_get_def app_use_def express_def)

lemma express_json_cases:
  "express_json rt req = Next req' \<Longrightarrow> req' = req \<or> (\<exists>v. req' = req\<lparr>body := Some v\<rparr>)"
  by (auto simp: express_json_def split: option.splits if_splits entity.splits)

lemma express_json_keeps:
  assumes "express_json rt req = Next req'"
  shows "req_method req' = req_method req" and "req_path req' = req_path req"
    and "if_none_match req' = if_none_match req" and "if_modified_since req' = if_modified_since req"
    and "cache_no_cache req' = cache_no_cache req"
  using express_json_cases [OF assms] by auto

lemma fresh_keeps:
  "express_json rt req = Next req' \<Longrightarrow> fresh req' etag = fresh req etag"
  by (simp add: fresh_def express_json_keeps)

lemma res_send_keeps:
  "express_json rt req = Next req' \<Longrightarrow> res_send rt req' chunk = res_send rt req chunk"
  by (simp add: res_send_def req_fresh_def fresh_keeps express_json_keeps)

lemma serve_error:
  "express_json rt req = Next_error s \<Longrightarrow> serve rt db req = Final s"
  by (simp add: serve_def server_app_layers)

lemma serve_passed:
  "express_json rt req = Next req' \<Longrightarrow>
   serve rt db req =
     (if \<not> path_matches ''/'' (req_path req) then Final 404
      else if handles_method ''GET'' (req_method req) then res_send rt req ''Hi hi''
      else if req_method req = ''OPTIONS'' then Options_reply [''GET'', ''HEAD'']
      else Final 404)"
  by (simp add: serve_def server_app_layers root_handler_def route_methods_def
      res_send_keeps express_json_keeps)

lemma express_json_plain: "express_json rt (plain_request m p) = Next (plain_request m p)"
  by (simp add: express_json_def plain_request_def)

lemma ConnectDB_cases:
  "ConnectDB drv uri =
     (case drv uri of
        Normal (Fulfilled u) \<Rightarrow> ([Driver_connect uri, Suspend, Console_log connected_line], Fulfilled ())
      | Normal (Rejected err) \<Rightarrow> ([Driver_connect uri, Suspend, Console_log (problem_line err)], Fulfilled ())
      | Throw err \<Rightarrow> ([Driver_connect uri, Console_log (problem_line err)], Fulfilled ()))"
  by (simp add: ConnectDB_def async_def try_catch_def js_bind_def mongoose_connect_def await_def
      console_log_def split: completion.splits promise.splits)

lemma ConnectDB_fulfilled: "snd (ConnectDB drv uri) = Fulfilled ()"
  by (simp add: ConnectDB_cases split: completion.splits promise.splits)

lemma ConnectDB_this_turn:
  "this_turn (fst (ConnectDB drv uri)) =
     (case drv uri of
        Normal p \<Rightarrow> [Driver_connect uri]
      | Throw err \<Rightarrow> [Driver_connect uri, Console_log (problem_line err)])"
  by (simp add: ConnectDB_cases this_turn_def split: completion.splits promise.splits)

lemma ConnectDB_later_turn:
  "later_turn (fst (ConnectDB drv uri)) =
     (case drv uri of
        Normal (Fulfilled u) \<Rightarrow> [Console_log connected_line]
      | Normal (Rejected err) \<Rightarrow> [Console_log (problem_line err)]
      | Throw err \<Rightarrow> [])"
  by (simp add: ConnectDB_cases later_turn_def split: completion.splits promise.splits)

lemma app_listen_this_turn: "this_turn (fst (app_listen nt port)) = [Net_listen port]"
  by (simp add: app_listen_def this_turn_def split: listen_outcome.splits)

lemma app_listen_later_turn:
  "later_turn (fst (app_listen nt port)) =
     (case nt port of Bad_port e \<Rightarrow> [] | _ \<Rightarrow> [Console_log (running_line port)])"
  by (simp add: app_listen_def later_turn_def split: listen_outcome.splits)

lemma app_listen_result:
  "snd (app_listen nt port) =
     (case nt port of Bad_port e \<Rightarrow> Throw e | Bind_error e \<Rightarrow> Normal False | Listening \<Rightarrow> Normal True)"
  by (simp add: app_listen_def split: listen_outcome.splits)

lemma server_entry_unfold:
  "server_entry rt drv nt sched env =
     run_module (server_app rt) [Env_read]
       (ConnectDB drv (env ''database_uri'')) (app_listen nt (env ''PORT'')) sched"
  by (simp add: server_entry_def require_example_env_def example_env_def)

lemma backend_unfold:
  "backend_server_js rt nt sched env =
     run_module (server_app rt) [Env_read] ([], Fulfilled ()) (app_listen nt (env ''PORT'')) sched"
  by (simp add: backend_server_js_def require_example_env_def example_env_def)

lemma server_entry_state:
  "state (server_entry rt drv nt sched env) =
     (case nt (env ''PORT'') of Listening \<Rightarrow> Serving | Bind_error e \<Rightarrow> Not_serving | Bad_port e \<Rightarrow> Crashed)"
  by (simp add: server_entry_unfold run_module_def Let_def app_listen_result ConnectDB_fulfilled
      split: listen_outcome.splits)

lemma server_entry_app: "app (server_entry rt drv nt sched env) = server_app rt"
  by (simp add: server_entry_unfold run_module_def Let_def ConnectDB_fulfilled
      split: completion.splits)

lemma server_entry_trace:
  "trace (server_entry rt drv nt sched env) =
     [Env_read] @ this_turn (fst (ConnectDB drv (env ''database_uri''))) @ [Net_listen (env ''PORT'')] @
     (case nt (env ''PORT'') of
        Bad_port e \<Rightarrow> [Uncaught (error_to_string e)]
      | _ \<Rightarrow> (if sched = Db_first
             then later_turn (fst (ConnectDB drv (env ''database_uri''))) @ [Console_log (running_line (env ''PORT''))]
             else [Console_log (running_line (env ''PORT''))] @ later_turn (fst (ConnectDB drv (env ''database_uri'')))))"
  by (simp add: server_entry_unfold run_module_def Let_def app_listen_result ConnectDB_fulfilled
      app_listen_this_turn app_listen_later_turn split: listen_outcome.splits)

lemma turn_Nil: "this_turn [] = []" "later_turn [] = []"
  by (simp_all add: this_turn_def later_turn_def)

lemma backend_trace:
  "trace (backend_server_js rt nt sched env) =
     [Env_read, Net_listen (env ''PORT'')] @
     (case nt (env ''PORT'') of
        Bad_port e \<Rightarrow> [Uncaught (error_to_string e)]
      | _ \<Rightarrow> [Console_log (running_line (env ''PORT''))])"
  by (simp add: backend_unfold run_module_def Let_def app_listen_result turn_Nil
      app_listen_this_turn app_listen_later_turn split: listen_outcome.splits)

lemma options_root:
  "serve rt db (plain_request ''OPTIONS'' ''/'') = Options_reply [''GET'', ''HEAD'']"
  by (simp add: serve_passed [OF express_json_plain] path_matches_def handles_method_def)
     (simp add: plain_request_def)

lemma serve_db_independent: "serve rt db1 req = serve rt db2 req"
proof (cases "express_json rt req")
  case (Next req')
  then show ?thesis by (simp add: serve_passed)
next
  case (Next_error s)
  then show ?thesis by (simp add: serve_error)
qed

lemma get_root_ok:
  assumes "req_method req = ''GET''" and "req_path req = ''/''"
    and "express_json rt req = Next req'" and "\<not> fresh req (etag_fn rt ''Hi hi'')"
  shows "serve rt db req = Sent 200 ''Hi hi''"
  using assms
  by (simp add: serve_passed path_matches_def handles_method_def res_send_def req_fresh_def)

lemma connect_precedes_listen:
  "precedes (Driver_connect (env ''database_uri'')) (Net_listen (env ''PORT''))
     (trace (server_entry rt drv nt sched env))"
  by (simp add: precedes_def server_entry_trace ConnectDB_this_turn
      split: completion.splits)

lemma backend_state:
  "state (backend_server_js rt nt sched env) =
     (case nt (env ''PORT'') of Listening \<Rightarrow> Serving | Bind_error e \<Rightarrow> Not_serving | Bad_port e \<Rightarrow> Crashed)"
  by (simp add: backend_unfold run_module_def Let_def app_listen_result
      split: listen_outcome.splits)

lemma ConnectDB_no_uncaught: "Uncaught e \<notin> set (fst (ConnectDB drv uri))"
  by (simp add: ConnectDB_cases split: completion.splits promise.splits)

lemma respond_serving:
  "nt (env ''PORT'') = Listening \<Longrightarrow>
   respond (server_entry rt drv nt sched env) db req = Some (serve rt db req)"
  by (simp add: respond_def server_entry_state server_entry_app serve_def)

lemma no_env_read_this_turn: "filter (\<lambda>e. e = Env_read) (this_turn (fst (ConnectDB drv uri))) = []"
  by (simp add: ConnectDB_this_turn split: completion.splits)

lemma no_env_read_later_turn: "filter (\<lambda>e. e = Env_read) (later_turn (fst (ConnectDB drv uri))) = []"
  by (simp add: ConnectDB_later_turn split: completion.splits promise.splits)

section \<open>Claim C1: the answer to \<^verbatim>\<open>GET /\<close>\<close>

text \<open>
  Claim C1, as amended. For every incoming request with method GET and path \<open>/\<close>, whatever
  its query string and its remaining headers: if the JSON body parser rejects the request,
  the answer is the final handler's with the parser's status; otherwise, if the request is
  a conditional one that the framework finds fresh, the answer is 304 with an empty body;
  otherwise the answer is 200 with the body \<^verbatim>\<open>Hi hi\<close>.
\<close>

theorem C1_get_root_response:
  assumes "req_method req = ''GET''" and "req_path req = ''/''"
  shows "serve rt db req =
     (case express_json rt req of
        Next_error s \<Rightarrow> Final s
      | Next req' \<Rightarrow> if fresh req (etag_fn rt ''Hi hi'') then Sent 304 [] else Sent 200 ''Hi hi'')"
proof (cases "express_json rt req")
  case (Next req')
  then show ?thesis
    using assms
    by (simp add: serve_passed path_matches_def handles_method_def res_send_def req_fresh_def)
next
  case (Next_error s)
  then show ?thesis by (simp add: serve_error)
qed

text \<open>A request without body and without conditional headers gets 200 and \<^verbatim>\<open>Hi hi\<close>.\<close>

theorem C1_witness:
  "req_method (plain_request ''GET'' ''/'') = ''GET'' \<and> req_path (plain_request ''GET'' ''/'') = ''/'' \<and>
   (\<forall>rt db. serve rt db (plain_request ''GET'' ''/'') = Sent 200 ''Hi hi'')"
proof -
  have m: "req_method (plain_request ''GET'' ''/'') = ''GET''"
    and p: "req_path (plain_request ''GET'' ''/'') = ''/''"
    by (simp_all add: plain_request_def)
  have "serve rt db (plain_request ''GET'' ''/'') = Sent 200 ''Hi hi''" for rt db
    using C1_get_root_response [OF m p, of rt db]
    by (simp add: express_json_plain) (simp add: plain_request_def fresh_def)
  with m p show ?thesis by simp
qed

text \<open>
  As stated, with any headers and any body, the claim fails: \<^verbatim>\<open>GET /\<close> with
  \<^verbatim>\<open>Content-Type: application/json\<close> and the body \<^verbatim>\<open>Hi\<close> stops in \<^verbatim>\<open>express.json()\<close>,
  registered before the route, and is answered with 400 whatever \<^verbatim>\<open>JSON.parse\<close> does; and
  \<^verbatim>\<open>GET /\<close> with the header \<^verbatim>\<open>If-None-Match: *\<close> reaches the handler, whose \<^verbatim>\<open>res.send\<close>
  answers 304 with an empty body.
\<close>

theorem C1_counterexample:
  "req_method bad_json_get = ''GET'' \<and> req_path bad_json_get = ''/'' \<and>
   (\<forall>rt db. serve rt db bad_json_get = Final 400) \<and>
   req_method conditional_get = ''GET'' \<and> req_path conditional_get = ''/'' \<and>
   (\<forall>rt db. serve rt db conditional_get = Sent 304 [])"
proof -
  have "express_json rt bad_json_get = Next_error 400" for rt
    by (simp add: express_json_def bad_json_get_def plain_request_def json_parse_body_def
        firstchar_def is_json_ws_def)
  then have bad: "serve rt db bad_json_get = Final 400" for rt db
    by (simp add: serve_error)
  have e: "express_json rt conditional_get = Next conditional_get" for rt
    by (simp add: express_json_def conditional_get_def plain_request_def)
  have "serve rt db conditional_get = Sent 304 []" for rt db
    by (simp add: serve_passed [OF e] path_matches_def handles_method_def res_send_def
        req_fresh_def fresh_def) (simp add: conditional_get_def plain_request_def)
  with bad show ?thesis
    by (simp add: bad_json_get_def conditional_get_def plain_request_def)
qed

section \<open>Claim C2: the connector is called before the listener and not waited for\<close>

text \<open>
  The entry point that calls \<^verbatim>\<open>ConnectDB\<close> does what the spec says of the server entry
  point: the driver's connect is called before \<^verbatim>\<open>app.listen\<close>; when the driver returns a
  promise, the call of \<^verbatim>\<open>listen\<close> is the very next effect, before anything the settled
  promise causes; and whether the process comes to serve, fails to bind or ends is decided
  by the answer to \<^verbatim>\<open>listen\<close> alone, the same for any two drivers.
\<close>

lemma server_entry_connect_before_listen:
  "precedes (Driver_connect (env ''database_uri'')) (Net_listen (env ''PORT''))
     (trace (server_entry rt drv nt sched env)) \<and>
   ((\<exists>p. drv (env ''database_uri'') = Normal p) \<longrightarrow>
      take 3 (trace (server_entry rt drv nt sched env)) =
        [Env_read, Driver_connect (env ''database_uri''), Net_listen (env ''PORT'')]) \<and>
   state (server_entry rt drv nt sched env) =
     (case nt (env ''PORT'') of
        Listening \<Rightarrow> Serving | Bind_error e \<Rightarrow> Not_serving | Bad_port e \<Rightarrow> Crashed) \<and>
   state (server_entry rt drv nt sched env) = state (server_entry rt drv' nt sched env)"
proof -
  have "take 3 (trace (server_entry rt drv nt sched env)) =
        [Env_read, Driver_connect (env ''database_uri''), Net_listen (env ''PORT'')]"
    if "drv (env ''database_uri'') = Normal p" for p
    using that by (simp add: server_entry_trace ConnectDB_this_turn)
  then show ?thesis
    using connect_precedes_listen [of env rt drv nt sched]
    by (auto simp: server_entry_state)
qed

text \<open>With the README's environment and an unreachable database, the first three effects.\<close>

lemma server_entry_first_effects:
  "take 3 (trace (server_entry rt unreachable_driver open_net Db_first readme_env)) =
     [Env_read,
      Driver_connect (Some ''mongodb://localhost:27017/Bank_Transaction_System''),
      Net_listen (Some ''3000'')]"
proof -
  have "\<exists>p. unreachable_driver (readme_env ''database_uri'') = Normal p"
    by (simp add: unreachable_driver_def)
  then show ?thesis
    using server_entry_connect_before_listen
      [of readme_env rt unreachable_driver open_net Db_first, THEN conjunct2, THEN conjunct1]
    by (simp add: readme_env_def)
qed

text \<open>
  Claim C2 says that in the server entry point the connector's connect is called before
  the listener is bound. \<^verbatim>\<open>src/backend/server.js\<close> is a server entry point too, and the
  claim names it: there \<^verbatim>\<open>app.listen\<close> is called, with the same outcome as in the other
  version, but no call of the driver comes before it, for any connection string and any
  port, while in the version with \<^verbatim>\<open>ConnectDB\<close> the call does come first. The missing call
  is the one that C5 reports.
\<close>

theorem C2_backend_listens_without_connect:
  "Net_listen (env ''PORT'') \<in> set (trace (backend_server_js rt nt sched env)) \<and>
   \<not> precedes (Driver_connect u) (Net_listen p) (trace (backend_server_js rt nt sched env)) \<and>
   state (backend_server_js rt nt sched env) = state (server_entry rt drv nt sched env) \<and>
   precedes (Driver_connect (env ''database_uri'')) (Net_listen (env ''PORT''))
     (trace (server_entry rt drv nt sched env))"
proof -
  have "Driver_connect u \<notin> set (takeWhile (\<lambda>e. e \<noteq> Net_listen p)
          (trace (backend_server_js rt nt sched env)))"
    by (auto simp: backend_trace dest!: set_takeWhileD split: listen_outcome.splits)
  then show ?thesis
    using connect_precedes_listen [of env rt drv nt sched]
    by (simp add: precedes_def backend_trace server_entry_state backend_state)
qed

section \<open>Claim C3: a failed connection is logged and goes no further\<close>

text \<open>
  Claim C3. For every connection string for which the driver's connect fails, by a
  rejected promise or by an exception at the call, \<^verbatim>\<open>ConnectDB\<close> calls the driver once and
  writes one line, and its promise is fulfilled: no exception reaches the caller, the
  process is not ended, there is no second call of the driver and no other effect. The
  line is the catch block's template literal: a cross mark, the words
  \<^verbatim>\<open>Problem in connecting to database\<close>, a cross mark, and the description of the error,
  which is what the error's own \<^verbatim>\<open>toString\<close> returns or, for an error without one, its
  name and message joined by a colon.
\<close>

theorem C3_failure_logged:
  assumes "drv uri = Normal (Rejected err) \<or> drv uri = Throw err"
  shows "snd (ConnectDB drv uri) = Fulfilled () \<and>
         filter (\<lambda>e. e \<noteq> Suspend) (fst (ConnectDB drv uri)) =
           [Driver_connect uri,
            Console_log
              ([CHR 0xE2, CHR 0x9D, CHR 0x8C] @ '' Problem in connecting to database '' @
               [CHR 0xE2, CHR 0x9D, CHR 0x8C] @ '' '' @
               (case own_toString err of
                  Some s \<Rightarrow> s
                | None \<Rightarrow>
                    if err_name err = [] then err_message err
                    else if err_message err = [] then err_name err
                    else err_name err @ '': '' @ err_message err))]"
  using assms
  by (auto simp: ConnectDB_cases problem_line_def cross_mark_def error_to_string_def
      split: option.splits)

text \<open>
  An unreachable server, whose error has the inherited \<^verbatim>\<open>toString\<close>, and a driver that
  throws an error with a \<^verbatim>\<open>toString\<close> of its own: the lines written.
\<close>

theorem C3_witness:
  "snd (ConnectDB unreachable_driver (Some ''mongodb://nowhere'')) = Fulfilled () \<and>
   filter (\<lambda>e. e \<noteq> Suspend) (fst (ConnectDB unreachable_driver (Some ''mongodb://nowhere''))) =
     [Driver_connect (Some ''mongodb://nowhere''),
      Console_log ([CHR 0xE2, CHR 0x9D, CHR 0x8C] @ '' Problem in connecting to database '' @
        [CHR 0xE2, CHR 0x9D, CHR 0x8C] @
        '' MongooseServerSelectionError: connect ECONNREFUSED 127.0.0.1:27017'')] \<and>
   snd (ConnectDB coded_driver None) = Fulfilled () \<and>
   filter (\<lambda>e. e \<noteq> Suspend) (fst (ConnectDB coded_driver None)) =
     [Driver_connect None,
      Console_log ([CHR 0xE2, CHR 0x9D, CHR 0x8C] @ '' Problem in connecting to database '' @
        [CHR 0xE2, CHR 0x9D, CHR 0x8C] @
        '' TypeError [ERR_INVALID_ARG_TYPE]: The uri argument must be of type string'')]"
proof -
  have a: "unreachable_driver (Some ''mongodb://nowhere'') = Normal (Rejected refused) \<or>
        unreachable_driver (Some ''mongodb://nowhere'') = Throw refused"
    by (simp add: unreachable_driver_def)
  have b: "coded_driver None = Normal (Rejected coded_error) \<or> coded_driver None = Throw coded_error"
    by (simp add: coded_driver_def)
  from C3_failure_logged [of unreachable_driver "Some ''mongodb://nowhere''" refused, OF a]
    C3_failure_logged [of coded_driver None coded_error, OF b]
  show ?thesis
    by (simp add: refused_def coded_error_def)
qed

section \<open>Claim C4: no value of \<^verbatim>\<open>database_uri\<close> ends the process\<close>

text \<open>
  Claim C4. For every value of \<^verbatim>\<open>database_uri\<close> (any string, the empty string, or absent)
  and every behaviour of the driver on it, the promise of \<^verbatim>\<open>ConnectDB\<close> is fulfilled and
  the connector raises nothing uncaught; the process ends at startup only when \<^verbatim>\<open>listen\<close>
  refuses its port argument; and when the listener is bound, the process answers every
  request as the application does, so \<^verbatim>\<open>GET /\<close> with 200 and \<^verbatim>\<open>Hi hi\<close> (for a request
  that passes the body parser and is not fresh, as in C1).
\<close>

theorem C4_uri_cannot_crash:
  "snd (ConnectDB drv (env ''database_uri'')) = Fulfilled () \<and>
   Uncaught e \<notin> set (fst (ConnectDB drv (env ''database_uri''))) \<and>
   (state (server_entry rt drv nt sched env) = Crashed) = (\<exists>e'. nt (env ''PORT'') = Bad_port e') \<and>
   (nt (env ''PORT'') = Listening \<longrightarrow>
    respond (server_entry rt drv nt sched env) db r = Some (serve rt db r)) \<and>
   (nt (env ''PORT'') = Listening \<and> req_method req = ''GET'' \<and> req_path req = ''/'' \<and>
    (\<exists>req'. express_json rt req = Next req') \<and> \<not> fresh req (etag_fn rt ''Hi hi'') \<longrightarrow>
    respond (server_entry rt drv nt sched env) db req = Some (Sent 200 ''Hi hi''))"
  by (auto simp: ConnectDB_fulfilled ConnectDB_no_uncaught server_entry_state respond_serving
      get_root_ok split: listen_outcome.splits)

text \<open>No variable set at all, and a driver that throws at the call: the process serves.\<close>

theorem C4_witness:
  "empty_env ''database_uri'' = None \<and>
   (\<forall>rt db. state (server_entry rt throwing_driver open_net Listen_first empty_env) = Serving \<and>
            respond (server_entry rt throwing_driver open_net Listen_first empty_env) db
              (plain_request ''GET'' ''/'') = Some (Sent 200 ''Hi hi''))"
proof -
  have "respond (server_entry rt throwing_driver open_net Listen_first empty_env) db
          (plain_request ''GET'' ''/'') = Some (Sent 200 ''Hi hi'')" for rt db
    using C4_uri_cannot_crash [where drv = throwing_driver and env = empty_env and rt = rt
        and nt = open_net and sched = Listen_first and db = db
        and req = "plain_request ''GET'' ''/''",
        THEN conjunct2, THEN conjunct2, THEN conjunct2, THEN conjunct2]
    by (simp add: open_net_def express_json_plain) (simp add: plain_request_def fresh_def)
  then show ?thesis
    by (simp add: empty_env_def server_entry_state open_net_def)
qed

section \<open>Claim C5: the two entry points\<close>

text \<open>
  Claim C5 says that the two versions of the entry point have the same startup effects.
  They do not: the version with \<^verbatim>\<open>ConnectDB\<close> calls the driver with \<^verbatim>\<open>database_uri\<close>, and
  \<^verbatim>\<open>src/backend/server.js\<close> never calls the driver, although the README's walkthrough of
  \<^verbatim>\<open>server.js\<close> has the call.
\<close>

theorem C5_entry_points_differ:
  "Driver_connect (env ''database_uri'') \<in> set (trace (server_entry rt drv nt sched env)) \<and>
   Driver_connect u \<notin> set (trace (backend_server_js rt nt sched env))"
  by (simp add: server_entry_trace backend_trace ConnectDB_this_turn
      split: completion.splits listen_outcome.splits)

section \<open>Claim C6: absent variables are passed through\<close>

text \<open>
  Claim C6. Loading the configuration reads the environment and fails on nothing; the
  values of \<^verbatim>\<open>PORT\<close> and \<^verbatim>\<open>database_uri\<close> reach \<^verbatim>\<open>app.listen\<close> and \<^verbatim>\<open>mongoose.connect\<close>
  as the environment has them; in particular an absent variable is undefined in the
  configuration and the consumer is called with undefined.
\<close>

theorem C6_absent_passed_through:
  "require_example_env env None = ([Env_read], example_env env, Some (example_env env)) \<and>
   Net_listen (env ''PORT'') \<in> set (trace (server_entry rt drv nt sched env)) \<and>
   Driver_connect (env ''database_uri'') \<in> set (trace (server_entry rt drv nt sched env)) \<and>
   (env ''PORT'' = None \<longrightarrow>
      PORT (example_env env) = None \<and>
      Net_listen None \<in> set (trace (server_entry rt drv nt sched env))) \<and>
   (env ''database_uri'' = None \<longrightarrow>
      database_uri (example_env env) = None \<and>
      Driver_connect None \<in> set (trace (server_entry rt drv nt sched env)))"
proof -
  have l: "Net_listen (env ''PORT'') \<in> set (trace (server_entry rt drv nt sched env))"
    by (simp add: server_entry_trace)
  have c: "Driver_connect (env ''database_uri'') \<in> set (trace (server_entry rt drv nt sched env))"
    by (simp add: server_entry_trace ConnectDB_this_turn split: completion.splits)
  have "env ''PORT'' = None \<longrightarrow> Net_listen None \<in> set (trace (server_entry rt drv nt sched env))"
    using l by auto
  moreover have "env ''database_uri'' = None \<longrightarrow>
      Driver_connect None \<in> set (trace (server_entry rt drv nt sched env))"
    using c by auto
  ultimately show ?thesis
    using l c by (simp add: require_example_env_def example_env_def)
qed

text \<open>The empty environment.\<close>

theorem C6_witness:
  "empty_env ''PORT'' = None \<and> empty_env ''database_uri'' = None \<and>
   (\<forall>rt drv nt sched.
      Net_listen None \<in> set (trace (server_entry rt drv nt sched empty_env)) \<and>
      Driver_connect None \<in> set (trace (server_entry rt drv nt sched empty_env)))"
proof -
  have e: "empty_env ''PORT'' = None" "empty_env ''database_uri'' = None"
    by (simp_all add: empty_env_def)
  have "Net_listen None \<in> set (trace (server_entry rt drv nt sched empty_env)) \<and>
        Driver_connect None \<in> set (trace (server_entry rt drv nt sched empty_env))"
    for rt drv nt sched
    using e C6_absent_passed_through [of empty_env rt drv nt sched] by simp
  with e show ?thesis by simp
qed

section \<open>Claim C7: requests outside the route\<close>

text \<open>
  Claim C7, as amended. Every request that the JSON body parser passes on, and whose path
  does not match the route \<open>/\<close> or whose method is none of GET, HEAD and OPTIONS, gets the
  final handler's 404.
\<close>

theorem C7_not_found:
  assumes "express_json rt req = Next req'"
    and "\<not> path_matches ''/'' (req_path req) \<or> req_method req \<notin> {''GET'', ''HEAD'', ''OPTIONS''}"
  shows "serve rt db req = Final 404"
  using assms by (auto simp: serve_passed handles_method_def)

text \<open>\<^verbatim>\<open>POST /transfer\<close> without a body.\<close>

theorem C7_witness:
  "\<not> path_matches ''/'' (req_path (plain_request ''POST'' ''/transfer'')) \<and>
   (\<forall>rt db. express_json rt (plain_request ''POST'' ''/transfer'') = Next (plain_request ''POST'' ''/transfer'') \<and>
            serve rt db (plain_request ''POST'' ''/transfer'') = Final 404)"
proof -
  have p: "\<not> path_matches ''/'' (req_path (plain_request ''POST'' ''/transfer''))"
    by (simp add: path_matches_def plain_request_def)
  then have "serve rt db (plain_request ''POST'' ''/transfer'') = Final 404" for rt db
    using C7_not_found [OF express_json_plain, of "''POST''" "''/transfer''" rt db] by simp
  with p show ?thesis by (simp add: express_json_plain)
qed

text \<open>
  As stated, for every request that is not \<^verbatim>\<open>GET /\<close>, the claim fails: the GET route
  answers \<^verbatim>\<open>HEAD /\<close> with 200 and no body.
\<close>

theorem C7_counterexample:
  "req_method (plain_request ''HEAD'' ''/'') \<noteq> ''GET'' \<and>
   (\<forall>rt db. serve rt db (plain_request ''HEAD'' ''/'') = Sent 200 [])"
proof -
  have "serve rt db (plain_request ''HEAD'' ''/'') = Sent 200 []" for rt db
    by (simp add: serve_passed [OF express_json_plain] path_matches_def handles_method_def
        res_send_def req_fresh_def fresh_def) (simp add: plain_request_def)
  then show ?thesis by (simp add: plain_request_def)
qed

section \<open>Claim C8: the configuration is read once\<close>

text \<open>
  Claim C8. Starting the process reads the environment exactly once; the second
  \<^verbatim>\<open>require\<close> of the loader returns the values of the first without reading, whatever the
  environment has become; and so does every later one, the cache being left as it was.
\<close>

theorem C8_read_once:
  "length (filter (\<lambda>e. e = Env_read) (trace (server_entry rt drv nt sched env))) = 1 \<and>
   require_example_env env' (snd (snd (require_example_env env None))) =
     ([], example_env env, Some (example_env env)) \<and>
   require_example_env env' (Some c) = ([], c, Some c)"
  by (simp add: server_entry_trace no_env_read_this_turn no_env_read_later_turn
      require_example_env_def split: listen_outcome.splits)

section \<open>Claim C9: the promise of \<^verbatim>\<open>ConnectDB\<close>\<close>

text \<open>
  Claim C9. For every connection string and every outcome of the driver's connect, the
  promise that \<^verbatim>\<open>ConnectDB\<close> returns is fulfilled with undefined and is not rejected, so
  awaiting it completes normally.
\<close>

theorem C9_promise_fulfilled:
  "snd (ConnectDB drv uri) = Fulfilled () \<and>
   snd (ConnectDB drv uri) \<noteq> Rejected e \<and>
   snd (await (snd (ConnectDB drv uri))) = Normal ()"
  by (simp add: ConnectDB_fulfilled await_def)

section \<open>Claim C10: the database connection does not influence the answers\<close>

text \<open>
  Claim C10, as amended. The answer to any request, and the answer of the handler of
  \<^verbatim>\<open>GET /\<close>, is the same in every state of the database connection; and any two
  \<^verbatim>\<open>GET /\<close> requests that pass the body parser and are not fresh get the same answer,
  200 with \<^verbatim>\<open>Hi hi\<close>, whatever the state of the connection when each is served.
\<close>

theorem C10_db_noninterference:
  "serve rt db1 req = serve rt db2 req \<and>
   root_handler rt db1 req = root_handler rt db2 req \<and>
   (req_method r1 = ''GET'' \<and> req_path r1 = ''/'' \<and> req_method r2 = ''GET'' \<and> req_path r2 = ''/'' \<and>
    (\<exists>p1. express_json rt r1 = Next p1) \<and> (\<exists>p2. express_json rt r2 = Next p2) \<and>
    \<not> fresh r1 (etag_fn rt ''Hi hi'') \<and> \<not> fresh r2 (etag_fn rt ''Hi hi'') \<longrightarrow>
    serve rt db1 r1 = Sent 200 ''Hi hi'' \<and> serve rt db2 r2 = Sent 200 ''Hi hi'')"
  using serve_db_independent [of rt db1 req db2]
  by (auto simp: root_handler_def get_root_ok)

text \<open>Two requests that differ in their query string, served in different states.\<close>

theorem C10_witness:
  "\<forall>rt. serve rt Connecting (plain_request ''GET'' ''/'') = Sent 200 ''Hi hi'' \<and>
        serve rt Disconnected ((plain_request ''GET'' ''/'')\<lparr>req_query := ''a=1''\<rparr>) = Sent 200 ''Hi hi''"
proof
  fix rt
  have e: "express_json rt ((plain_request ''GET'' ''/'')\<lparr>req_query := ''a=1''\<rparr>) =
           Next ((plain_request ''GET'' ''/'')\<lparr>req_query := ''a=1''\<rparr>)"
    by (simp add: express_json_def plain_request_def)
  show "serve rt Connecting (plain_request ''GET'' ''/'') = Sent 200 ''Hi hi'' \<and>
        serve rt Disconnected ((plain_request ''GET'' ''/'')\<lparr>req_query := ''a=1''\<rparr>) = Sent 200 ''Hi hi''"
    using C10_db_noninterference [of rt Connecting "plain_request ''GET'' ''/''" Disconnected
        "plain_request ''GET'' ''/''" "(plain_request ''GET'' ''/'')\<lparr>req_query := ''a=1''\<rparr>",
        THEN conjunct2, THEN conjunct2]
    by (simp add: express_json_plain e) (simp add: plain_request_def fresh_def)
qed

text \<open>
  As stated, for any two requests to \<^verbatim>\<open>GET /\<close>, the claim fails: \<^verbatim>\<open>res.send\<close> answers
  a request with \<^verbatim>\<open>If-None-Match: *\<close> with 304 and an empty body.
\<close>

theorem C10_counterexample:
  "\<forall>rt. serve rt Connected (plain_request ''GET'' ''/'') = Sent 200 ''Hi hi'' \<and>
        serve rt Connected conditional_get = Sent 304 []"
proof
  fix rt
  have e: "express_json rt conditional_get = Next conditional_get"
    by (simp add: express_json_def conditional_get_def plain_request_def)
  have "serve rt Connected conditional_get = Sent 304 []"
    by (simp add: serve_passed [OF e] path_matches_def handles_method_def res_send_def
        req_fresh_def fresh_def) (simp add: conditional_get_def plain_request_def)
  moreover have "serve rt Connected (plain_request ''GET'' ''/'') = Sent 200 ''Hi hi''"
    using get_root_ok [OF _ _ express_json_plain, of "''GET''" "''/''" rt Connected]
    by (simp add: plain_request_def fresh_def)
  ultimately show "serve rt Connected (plain_request ''GET'' ''/'') = Sent 200 ''Hi hi'' \<and>
        serve rt Connected conditional_get = Sent 304 []" by simp
qed

end
